theory Spec2Isabelle
  imports Complex_Main
begin

section \<open>The Bridge HTTP client (services/bridgeClient)\<close>

text \<open>
  The client wraps an axios instance with a request interceptor (\<open>_handleRequest\<close>),
  a response interceptor (\<open>_handleResponse\<close>) and an error interceptor
  (\<open>_handleError\<close>, \<open>_isRetryable\<close>, \<open>_retry\<close>).  A retry re-enters the same
  instance with \<open>error.config\<close>, so the request interceptor runs again on the
  configuration object that already carries the headers of the failed attempt.

  The two sources of nondeterminism are made explicit: \<open>uuidv4\<close> is a stream of
  identifiers (the \<open>n\<close>-th call of \<open>uuidv4()\<close> returns \<open>uuidv4 n\<close>), and the
  network is a stream of outcomes (the \<open>n\<close>-th dispatch receives \<open>network n\<close>).
  Delays are in milliseconds.
\<close>

record bridge_config =
  timeout :: nat
  retryAttempts :: nat
  retryDelay :: nat
  retryableStatusCodes :: "nat list"

definition bridgeConfig :: bridge_config where
  "bridgeConfig =
     \<lparr>timeout = 30000, retryAttempts = 3, retryDelay = 1000,
      retryableStatusCodes = [429, 500, 502, 503, 504]\<rparr>"

record request_config =
  req_method :: string  \<comment> \<open>\<open>config.method\<close>\<close>
  url :: string
  req_data :: "string option"  \<comment> \<open>\<open>config.data\<close>, the request body\<close>
  headers :: "string \<rightharpoonup> string"
  retryCount :: "nat option"  \<comment> \<open>\<open>config._retryCount\<close>, undefined before the first retry\<close>
  metadata :: "string option"  \<comment> \<open>\<open>config.metadata.correlationId\<close>\<close>

record response =
  status :: nat
  body :: string

text \<open>
  axios rejects when no response arrives (connection failure, or the timeout of
  \<open>timeout\<close> milliseconds: \<open>error.response\<close> is undefined) and when the status is
  outside 2xx (\<open>error.response\<close> is the response).
\<close>

datatype outcome = Fulfilled response | Rejected "response option"

record formatted_error =
  err_status :: "nat option"
  bridgeError :: "string option"
  err_correlationId :: "string option"

record client_state =
  uuids_drawn :: nat
  dispatched :: nat
  sent :: "request_config list"
  waited :: "nat list"
  audit :: "string list"

definition toLowerCase_char :: "char \<Rightarrow> char" where
  "toLowerCase_char c =
     (case map_of (zip ''ABCDEFGHIJKLMNOPQRSTUVWXYZ'' ''abcdefghijklmnopqrstuvwxyz'') c of
        None \<Rightarrow> c
      | Some l \<Rightarrow> l)"

definition toLowerCase :: "string \<Rightarrow> string" where
  "toLowerCase s = map toLowerCase_char s"

text \<open>JavaScript truthiness of an optional string: undefined and the empty string are falsy.\<close>

definition truthy :: "string option \<Rightarrow> bool" where
  "truthy v = (case v of None \<Rightarrow> False | Some s \<Rightarrow> s \<noteq> [])"

definition handleRequest ::
  "(nat \<Rightarrow> string) \<Rightarrow> client_state \<Rightarrow> request_config \<Rightarrow> request_config \<times> client_state" where
  "handleRequest uuidv4 st config =
     (let correlationId = uuidv4 (uuids_drawn st);
          st1 = st\<lparr>uuids_drawn := uuids_drawn st + 1\<rparr>;
          config1 = config\<lparr>headers := (headers config)(''X-Correlation-ID'' \<mapsto> correlationId)\<rparr>;
          mutating = (toLowerCase (req_method config1) \<in> set [''post'', ''put'']);
          fresh = (mutating \<and> \<not> truthy (headers config1 ''Idempotency-Key''));
          config2 = (if fresh
                     then config1\<lparr>headers :=
                            (headers config1)(''Idempotency-Key'' \<mapsto> uuidv4 (uuids_drawn st1))\<rparr>
                     else config1);
          st2 = (if fresh then st1\<lparr>uuids_drawn := uuids_drawn st1 + 1\<rparr> else st1)
      in (config2\<lparr>metadata := Some correlationId\<rparr>, st2))"

definition handleResponse :: "client_state \<Rightarrow> response \<Rightarrow> string \<times> client_state" where
  "handleResponse st r = (body r, st\<lparr>audit := audit st @ [''bridge_api_success'']\<rparr>)"

definition isRetryable :: "bridge_config \<Rightarrow> request_config \<Rightarrow> response option \<Rightarrow> bool" where
  "isRetryable cfg config resp =
     (if (case retryCount config of None \<Rightarrow> False | Some n \<Rightarrow> n \<ge> retryAttempts cfg) then False
      else (case resp of
              None \<Rightarrow> True
            | Some r \<Rightarrow> status r \<in> set (retryableStatusCodes cfg)))"

definition retry :: "bridge_config \<Rightarrow> request_config \<Rightarrow> request_config \<times> nat" where
  "retry cfg config =
     (let n = (case retryCount config of None \<Rightarrow> 0 | Some k \<Rightarrow> k) + 1;
          delay = retryDelay cfg * 2 ^ (n - 1)
      in (config\<lparr>retryCount := Some n\<rparr>, delay))"

definition formatError :: "request_config \<Rightarrow> response option \<Rightarrow> formatted_error" where
  "formatError config resp =
     \<lparr>err_status = map_option status resp,
      bridgeError = map_option body resp,
      err_correlationId = metadata config\<rparr>"

function client ::
  "bridge_config \<Rightarrow> (nat \<Rightarrow> string) \<Rightarrow> (nat \<Rightarrow> outcome) \<Rightarrow> client_state \<Rightarrow> request_config
     \<Rightarrow> (formatted_error + string) \<times> client_state" where
  "client cfg uuidv4 network st config =
     (let (config1, st1) = handleRequest uuidv4 st config;
          st2 = st1\<lparr>dispatched := dispatched st1 + 1, sent := sent st1 @ [config1]\<rparr>
      in case network (dispatched st1) of
           Fulfilled r \<Rightarrow>
             (let (d, st3) = handleResponse st2 r in (Inr d, st3))
         | Rejected resp \<Rightarrow>
             (let st3 = st2\<lparr>audit := audit st2 @ [''bridge_api_error'']\<rparr>
              in if isRetryable cfg config1 resp
                 then (let (config2, delay) = retry cfg config1
                       in client cfg uuidv4 network (st3\<lparr>waited := waited st3 @ [delay]\<rparr>) config2)
                 else (Inl (formatError config1 resp), st3)))"
  by pat_completeness auto

lemma retryCount_handleRequest:
  "handleRequest u st c = (c1, s1) \<Longrightarrow> retryCount c1 = retryCount c"
  by (auto simp: handleRequest_def Let_def)

termination client
proof (relation "measure (\<lambda>(cfg, u, n, st, c).
         case retryCount c of None \<Rightarrow> retryAttempts cfg + 1 | Some k \<Rightarrow> retryAttempts cfg - k)",
       goal_cases)
  case 1
  show ?case by simp
next
  case (2 cfg uuidv4 network st config x config1 st1 st2 resp st3 y config2 delay)
  from 2(1,2) have rc: "retryCount config1 = retryCount config"
    using retryCount_handleRequest[of uuidv4 st config config1 st1] by simp
  from 2(6) have lt: "case retryCount config of None \<Rightarrow> True | Some k \<Rightarrow> k < retryAttempts cfg"
    unfolding isRetryable_def rc by (auto split: option.splits if_splits)
  from 2(8) 2(7) have c2:
    "retryCount config2 = Some ((case retryCount config of None \<Rightarrow> 0 | Some k \<Rightarrow> k) + 1)"
    unfolding retry_def rc by (auto simp: Let_def)
  show ?case using lt c2 by (auto split: option.splits)
qed

declare client.simps [simp del]

definition retryable_failure :: "outcome \<Rightarrow> bool" where
  "retryable_failure out =
     (case out of
        Fulfilled r \<Rightarrow> False
      | Rejected None \<Rightarrow> True
      | Rejected (Some r) \<Rightarrow> status r \<in> {429, 500, 502, 503, 504})"

definition backoff :: "bridge_config \<Rightarrow> nat \<Rightarrow> nat" where
  "backoff cfg n = retryDelay cfg * 2 ^ (n - 1)"

definition surfaced :: "outcome \<Rightarrow> (formatted_error + string) \<Rightarrow> bool" where
  "surfaced out res =
     (case out of
        Fulfilled r \<Rightarrow> res = Inr (body r)
      | Rejected resp \<Rightarrow>
          (case res of
             Inl e \<Rightarrow> err_status e = map_option status resp \<and> bridgeError e = map_option body resp
           | Inr d \<Rightarrow> False))"

lemma handleRequest_frame:
  assumes "handleRequest u st c = (c1, s1)"
  shows "dispatched s1 = dispatched st" "waited s1 = waited st" "sent s1 = sent st" "audit s1 = audit st"
    "retryCount c1 = retryCount c"
  using assms by (auto simp: handleRequest_def Let_def split: if_splits)

lemma client_retries:
  assumes codes: "retryableStatusCodes cfg = [429, 500, 502, 503, 504]"
    and pos: "0 < retryAttempts cfg"
    and j: "j = (case retryCount config of None \<Rightarrow> 0 | Some n \<Rightarrow> n)"
    and bound: "j + k \<le> retryAttempts cfg"
    and fails: "\<forall>i<k. retryable_failure (network (dispatched st + i))"
    and stop: "j + k < retryAttempts cfg \<longrightarrow> \<not> retryable_failure (network (dispatched st + k))"
  shows "waited (snd (client cfg u network st config)) = waited st @ map (backoff cfg) [Suc j..<Suc (j + k)]
       \<and> dispatched (snd (client cfg u network st config)) = dispatched st + k + 1
       \<and> surfaced (network (dispatched st + k)) (fst (client cfg u network st config))"
  using j bound fails stop
proof (induction k arbitrary: st config j)
  case 0
  obtain c1 s1 where hr: "handleRequest u st config = (c1, s1)" by (cases "handleRequest u st config")
  note fr = handleRequest_frame[OF hr]
  show ?case
  proof (cases "network (dispatched st)")
    case (Fulfilled r)
    then show ?thesis
      by (subst (1 2 3) client.simps) (simp add: hr fr handleResponse_def surfaced_def)
  next
    case (Rejected resp)
    have nr: "\<not> isRetryable cfg c1 resp"
    proof (cases "j < retryAttempts cfg")
      case True
      with 0 Rejected have "\<not> retryable_failure (Rejected resp)" by simp
      then show ?thesis
        by (auto simp: isRetryable_def retryable_failure_def codes split: option.splits)
    next
      case False
      with 0 pos have "retryCount config = Some (retryAttempts cfg)"
        by (auto split: option.splits)
      then show ?thesis by (simp add: isRetryable_def fr)
    qed
    show ?thesis
      by (subst (1 2 3) client.simps) (simp add: hr fr Rejected nr surfaced_def formatError_def)
  qed
next
  case (Suc k)
  obtain c1 s1 where hr: "handleRequest u st config = (c1, s1)" by (cases "handleRequest u st config")
  note fr = handleRequest_frame[OF hr]
  from Suc.prems(3) have "retryable_failure (network (dispatched st))"
    by (metis add.right_neutral zero_less_Suc)
  then obtain resp where rej: "network (dispatched st) = Rejected resp"
    and rf: "retryable_failure (Rejected resp)"
    by (cases "network (dispatched st)") (auto simp: retryable_failure_def)
  from Suc.prems(1,2) have lt: "j < retryAttempts cfg" by simp
  have ir: "isRetryable cfg c1 resp"
    using rf lt Suc.prems(1)
    by (auto simp: isRetryable_def retryable_failure_def codes fr split: option.splits)
  define c2 where "c2 = c1\<lparr>retryCount := Some (Suc j)\<rparr>"
  define s3 where "s3 = s1\<lparr>dispatched := Suc (dispatched st), sent := sent st @ [c1],
     audit := audit st @ [''bridge_api_error''], waited := waited st @ [backoff cfg (Suc j)]\<rparr>"
  have rt: "retry cfg c1 = (c2, backoff cfg (Suc j))"
    using Suc.prems(1) by (simp add: retry_def c2_def backoff_def fr Let_def)
  have step: "client cfg u network st config = client cfg u network s3 c2"
    by (subst client.simps) (simp add: hr fr rej ir rt s3_def)
  have IH: "waited (snd (client cfg u network s3 c2)) = waited s3 @ map (backoff cfg) [Suc (Suc j)..<Suc (Suc j + k)]
       \<and> dispatched (snd (client cfg u network s3 c2)) = dispatched s3 + k + 1
       \<and> surfaced (network (dispatched s3 + k)) (fst (client cfg u network s3 c2))"
  proof (rule Suc.IH)
    show "Suc j = (case retryCount c2 of None \<Rightarrow> 0 | Some n \<Rightarrow> n)" by (simp add: c2_def)
    show "Suc j + k \<le> retryAttempts cfg" using Suc.prems(2) by simp
    show "\<forall>i<k. retryable_failure (network (dispatched s3 + i))"
      using Suc.prems(3) by (auto simp: s3_def)
    show "Suc j + k < retryAttempts cfg \<longrightarrow> \<not> retryable_failure (network (dispatched s3 + k))"
      using Suc.prems(4) by (simp add: s3_def)
  qed
  have upt: "[Suc j..<Suc (j + Suc k)] = Suc j # [Suc (Suc j)..<Suc (Suc j + k)]"
    by (simp add: upt_conv_Cons del: upt.simps)
  show ?case
    unfolding step upt using IH by (simp add: s3_def del: upt.simps)
qed

text \<open>
  What makes a dispatched configuration the same request as the caller's: method, URL
  and body are the caller's, and so is every header but the two the request
  interceptor writes.
\<close>

definition same_request :: "request_config \<Rightarrow> request_config \<Rightarrow> bool" where
  "same_request a b =
     (req_method b = req_method a \<and> url b = url a \<and> req_data b = req_data a
      \<and> (\<forall>h. h \<noteq> ''X-Correlation-ID'' \<longrightarrow> h \<noteq> ''Idempotency-Key'' \<longrightarrow> headers b h = headers a h))"

lemma same_request_trans: "same_request a b \<Longrightarrow> same_request b c \<Longrightarrow> same_request a c"
  by (simp add: same_request_def)

lemma handleRequest_same: "handleRequest u st c = (c1, s1) \<Longrightarrow> same_request c c1"
  by (auto simp: handleRequest_def Let_def same_request_def split: if_splits)

lemma retry_same: "retry cfg c = (c2, d) \<Longrightarrow> same_request c c2"
  by (auto simp: retry_def Let_def same_request_def)

text \<open>Whatever the network answers, every dispatch sends the caller's request.\<close>

lemma client_resends:
  "\<exists>cs. sent (snd (client cfg u network st config)) = sent st @ cs
        \<and> dispatched (snd (client cfg u network st config)) = dispatched st + length cs
        \<and> list_all (same_request config) cs"
proof (induction cfg u network st config rule: client.induct)
  case (1 cfg u network st config)
  obtain c1 s1 where hr: "handleRequest u st config = (c1, s1)" by (cases "handleRequest u st config")
  note fr = handleRequest_frame[OF hr]
  note same1 = handleRequest_same[OF hr]
  show ?case
  proof (cases "network (dispatched s1)")
    case (Fulfilled r)
    then show ?thesis
      by (subst (1 2) client.simps) (simp add: hr fr handleResponse_def same1)
  next
    case (Rejected resp)
    show ?thesis
    proof (cases "isRetryable cfg c1 resp")
      case False
      with Rejected show ?thesis
        by (subst (1 2) client.simps) (simp add: hr fr same1)
    next
      case True
      obtain c2 d where rt: "retry cfg c1 = (c2, d)" by (cases "retry cfg c1")
      define s3 where "s3 = s1\<lparr>dispatched := dispatched s1 + 1, sent := sent s1 @ [c1]\<rparr>"
      define s4 where "s4 = s3\<lparr>audit := audit s3 @ [''bridge_api_error'']\<rparr>"
      define s5 where "s5 = s4\<lparr>waited := waited s4 @ [d]\<rparr>"
      have "\<exists>cs. sent (snd (client cfg u network s5 c2)) = sent s5 @ cs
              \<and> dispatched (snd (client cfg u network s5 c2)) = dispatched s5 + length cs
              \<and> list_all (same_request c2) cs"
        using "1.IH"[OF hr[symmetric] refl s3_def Rejected s4_def True rt[symmetric] refl, folded s5_def]
        by simp
      then obtain cs where cs: "sent (snd (client cfg u network s5 c2)) = sent s5 @ cs"
        "dispatched (snd (client cfg u network s5 c2)) = dispatched s5 + length cs"
        "list_all (same_request c2) cs" by blast
      have same2: "same_request config c2"
        using same_request_trans[OF same1 retry_same[OF rt]] .
      have all: "list_all (same_request config) cs"
        using cs(3) same2 by (auto simp: list_all_iff intro: same_request_trans)
      have step: "client cfg u network st config = client cfg u network s5 c2"
        by (subst client.simps) (simp add: hr Rejected True rt s5_def s4_def s3_def)
      show ?thesis
        unfolding step using cs(1,2) all same1 by (simp add: s5_def s4_def s3_def fr)
    qed
  qed
qed

text \<open>
  Claim C1.  A request that enters the client without a retry counter is dispatched
  again after every failure that has no response (connection failure or timeout) or a
  status in 429, 500, 502, 503, 504; the \<open>n\<close>-th retry waits
  \<open>retryDelay * 2^(n-1)\<close> milliseconds; after \<open>retryAttempts\<close> retries the next
  outcome is final, and a failure with any other status is final at once (\<open>k = 0\<close>:
  nothing is waited for).  Here \<open>k\<close> is the number of retryable failures the
  network answers with before its first other outcome, capped at \<open>retryAttempts\<close>.
  Every one of the \<open>k + 1\<close> dispatches sends the caller's request: its method, URL,
  body and headers (\<open>same_request\<close>).
  The configuration of the repository has \<open>retryAttempts = 3\<close>; the statement is for
  every positive value, because the first check of \<open>_isRetryable\<close> compares an
  undefined counter, which is never \<open>>=\<close> anything, so that a limit of \<open>0\<close> would
  still allow one retry.
\<close>

theorem C1_retry_backoff:
  assumes "retryableStatusCodes cfg = [429, 500, 502, 503, 504]"
    and "0 < retryAttempts cfg"
    and "retryCount config = None"
    and "k \<le> retryAttempts cfg"
    and "\<forall>i<k. retryable_failure (network (dispatched st + i))"
    and "k < retryAttempts cfg \<longrightarrow> \<not> retryable_failure (network (dispatched st + k))"
  shows "waited (snd (client cfg uuidv4 network st config))
           = waited st @ map (\<lambda>n. retryDelay cfg * 2 ^ (n - 1)) [1..<Suc k]
       \<and> dispatched (snd (client cfg uuidv4 network st config)) = dispatched st + k + 1
       \<and> surfaced (network (dispatched st + k)) (fst (client cfg uuidv4 network st config))
       \<and> (\<exists>cs. sent (snd (client cfg uuidv4 network st config)) = sent st @ cs
                \<and> length cs = Suc k \<and> list_all (same_request config) cs)"
proof -
  have "0 = (case retryCount config of None \<Rightarrow> 0 | Some n \<Rightarrow> n)"
    using assms(3) by simp
  from client_retries[OF assms(1,2) this, of k network st uuidv4] assms(4,5,6)
  have "waited (snd (client cfg uuidv4 network st config)) = waited st @ map (backoff cfg) [Suc 0..<Suc k]
       \<and> dispatched (snd (client cfg uuidv4 network st config)) = dispatched st + k + 1
       \<and> surfaced (network (dispatched st + k)) (fst (client cfg uuidv4 network st config))"
    by simp
  moreover have "backoff cfg = (\<lambda>n. retryDelay cfg * 2 ^ (n - 1))"
    by (rule ext) (simp add: backoff_def)
  moreover obtain cs where
    "sent (snd (client cfg uuidv4 network st config)) = sent st @ cs"
    "dispatched (snd (client cfg uuidv4 network st config)) = dispatched st + length cs"
    "list_all (same_request config) cs"
    using client_resends[of cfg uuidv4 network st config] by blast
  ultimately show ?thesis by (auto simp del: upt.simps)
qed

lemma map_constant:
  "list_all (\<lambda>c. f c = v) cs \<Longrightarrow> map f cs = replicate (length cs) v"
  by (induction cs) auto

definition uuid_stream :: "nat \<Rightarrow> string" where
  "uuid_stream n = replicate (Suc n) (CHR ''u'')"

definition flaky_network :: "nat \<Rightarrow> outcome" where
  "flaky_network n = (if n = 1 then Rejected None else Rejected (Some \<lparr>status = 503, body = ''unavailable''\<rparr>))"

definition fresh_state :: client_state where
  "fresh_state = \<lparr>uuids_drawn = 0, dispatched = 0, sent = [], waited = [], audit = []\<rparr>"

definition request :: "string \<Rightarrow> string \<Rightarrow> (string \<rightharpoonup> string) \<Rightarrow> request_config" where
  "request m u h = \<lparr>req_method = m, url = u, req_data = Some ''payload'', headers = h,
                   retryCount = None, metadata = None\<rparr>"

theorem C1_retry_backoff_witness:
  "waited (snd (client bridgeConfig uuid_stream flaky_network fresh_state (request ''post'' ''/transfers'' Map.empty)))
     = [1000, 2000, 4000]
   \<and> dispatched (snd (client bridgeConfig uuid_stream flaky_network fresh_state (request ''post'' ''/transfers'' Map.empty))) = 4
   \<and> surfaced (Rejected (Some \<lparr>status = 503, body = ''unavailable''\<rparr>))
        (fst (client bridgeConfig uuid_stream flaky_network fresh_state (request ''post'' ''/transfers'' Map.empty)))
   \<and> map (\<lambda>c. (req_method c, url c, req_data c))
        (sent (snd (client bridgeConfig uuid_stream flaky_network fresh_state
                      (request ''post'' ''/transfers'' Map.empty))))
       = replicate 4 (''post'', ''/transfers'', Some ''payload'')"
proof -
  let ?run = "client bridgeConfig uuid_stream flaky_network fresh_state
                (request ''post'' ''/transfers'' Map.empty)"
  have facts: "waited (snd ?run) = [1000, 2000, 4000]" "dispatched (snd ?run) = 4"
    "surfaced (Rejected (Some \<lparr>status = 503, body = ''unavailable''\<rparr>)) (fst ?run)"
    "\<exists>cs. sent (snd ?run) = cs \<and> length cs = 4
          \<and> list_all (same_request (request ''post'' ''/transfers'' Map.empty)) cs"
    using C1_retry_backoff[of bridgeConfig "request ''post'' ''/transfers'' Map.empty" 3
            flaky_network fresh_state uuid_stream]
    by (simp_all add: bridgeConfig_def request_def flaky_network_def fresh_state_def
          retryable_failure_def numeral_3_eq_3 All_less_Suc)
  from facts(4) have
    "list_all (\<lambda>c. (req_method c, url c, req_data c) = (''post'', ''/transfers'', Some ''payload''))
       (sent (snd ?run))"
    by (auto simp: list_all_iff same_request_def request_def)
  from map_constant[OF this] facts(4)
  have "map (\<lambda>c. (req_method c, url c, req_data c)) (sent (snd ?run))
          = replicate 4 (''post'', ''/transfers'', Some ''payload'')"
    by auto
  with facts(1,2,3) show ?thesis by simp
qed

subsection \<open>The idempotency key\<close>

definition idempotency_key :: "request_config \<Rightarrow> string option" where
  "idempotency_key config = headers config ''Idempotency-Key''"

lemma handleRequest_keeps_key:
  assumes "handleRequest u st c = (c1, s1)" and "idempotency_key c = Some key" and "key \<noteq> []"
  shows "idempotency_key c1 = Some key"
  using assms by (auto simp: handleRequest_def Let_def idempotency_key_def truthy_def split: if_splits)

lemma retry_keeps_key: "retry cfg c = (c2, d) \<Longrightarrow> idempotency_key c2 = idempotency_key c"
  by (auto simp: retry_def Let_def idempotency_key_def)

lemma client_keeps_key:
  assumes "idempotency_key config = Some key" and "key \<noteq> []"
  shows "\<exists>cs. sent (snd (client cfg u network st config)) = sent st @ cs \<and> cs \<noteq> []
           \<and> list_all (\<lambda>c. idempotency_key c = Some key) cs"
  using assms
proof (induction cfg u network st config rule: client.induct)
  case (1 cfg u network st config)
  obtain c1 s1 where hr: "handleRequest u st config = (c1, s1)" by (cases "handleRequest u st config")
  note fr = handleRequest_frame[OF hr]
  have k1: "idempotency_key c1 = Some key"
    using handleRequest_keeps_key[OF hr "1.prems"] .
  show ?case
  proof (cases "network (dispatched s1)")
    case (Fulfilled r)
    then show ?thesis
      by (subst client.simps) (simp add: hr fr handleResponse_def k1)
  next
    case (Rejected resp)
    show ?thesis
    proof (cases "isRetryable cfg c1 resp")
      case False
      with Rejected show ?thesis
        by (subst client.simps) (simp add: hr fr k1)
    next
      case True
      obtain c2 d where rt: "retry cfg c1 = (c2, d)" by (cases "retry cfg c1")
      define s3 where "s3 = s1\<lparr>dispatched := dispatched s1 + 1, sent := sent s1 @ [c1]\<rparr>"
      define s4 where "s4 = s3\<lparr>audit := audit s3 @ [''bridge_api_error'']\<rparr>"
      define s5 where "s5 = s4\<lparr>waited := waited s4 @ [d]\<rparr>"
      have k2: "idempotency_key c2 = Some key" using retry_keeps_key[OF rt] k1 by simp
      have "\<exists>cs. sent (snd (client cfg u network s5 c2)) = sent s5 @ cs \<and> cs \<noteq> []
           \<and> list_all (\<lambda>c. idempotency_key c = Some key) cs"
        using "1.IH"[OF hr[symmetric] refl s3_def Rejected s4_def True rt[symmetric] refl, folded s5_def] k2 "1.prems"(2)
        by simp
      then obtain cs where cs: "sent (snd (client cfg u network s5 c2)) = sent s5 @ cs"
        "list_all (\<lambda>c. idempotency_key c = Some key) cs" by blast
      have step: "client cfg u network st config = client cfg u network s5 c2"
        by (subst client.simps) (simp add: hr Rejected True rt s5_def s4_def s3_def)
      show ?thesis
        unfolding step using cs k1 by (simp add: s5_def s4_def s3_def fr)
    qed
  qed
qed


lemma handleRequest_key:
  assumes "handleRequest u st c = (c1, s1)" and "toLowerCase (req_method c) \<in> {''post'', ''put''}"
  shows "idempotency_key c1 =
           Some (case idempotency_key c of
                   None \<Rightarrow> u (Suc (uuids_drawn st))
                 | Some k \<Rightarrow> if k \<noteq> [] then k else u (Suc (uuids_drawn st)))"
  using assms
  by (auto simp: handleRequest_def Let_def idempotency_key_def truthy_def split: if_splits option.splits)

lemma client_first_key:
  assumes hr: "handleRequest u st config = (c1, s1)" and k1: "idempotency_key c1 = Some key" and ne: "key \<noteq> []"
  shows "\<exists>cs. sent (snd (client cfg u network st config)) = sent st @ cs \<and> cs \<noteq> []
           \<and> list_all (\<lambda>c. idempotency_key c = Some key) cs"
proof -
  note fr = handleRequest_frame[OF hr]
  show ?thesis
  proof (cases "network (dispatched s1)")
    case (Fulfilled r)
    then show ?thesis
      by (subst client.simps) (simp add: hr fr handleResponse_def k1)
  next
    case (Rejected resp)
    show ?thesis
    proof (cases "isRetryable cfg c1 resp")
      case False
      with Rejected show ?thesis
        by (subst client.simps) (simp add: hr fr k1)
    next
      case True
      obtain c2 d where rt: "retry cfg c1 = (c2, d)" by (cases "retry cfg c1")
      define s5 where "s5 = s1\<lparr>dispatched := dispatched s1 + 1, sent := sent s1 @ [c1],
         audit := audit s1 @ [''bridge_api_error''], waited := waited s1 @ [d]\<rparr>"
      have k2: "idempotency_key c2 = Some key" using retry_keeps_key[OF rt] k1 by simp
      from client_keeps_key[OF k2 ne, of cfg u network s5]
      obtain cs where cs: "sent (snd (client cfg u network s5 c2)) = sent s5 @ cs"
        "list_all (\<lambda>c. idempotency_key c = Some key) cs" by blast
      have step: "client cfg u network st config = client cfg u network s5 c2"
        by (subst client.simps) (simp add: hr Rejected True rt s5_def)
      show ?thesis
        unfolding step using cs k1 by (simp add: s5_def fr)
    qed
  qed
qed

text \<open>
  Claim C2, as amended.  For a request whose method is POST or PUT, every dispatch of
  the call (the first attempt and each retry) carries one and the same
  \<open>Idempotency-Key\<close>: the caller's header when it is a non-empty string, otherwise
  the identifier that \<open>uuidv4\<close> returned in the first run of the request interceptor.
  The caller's key is the value the configuration holds under the header name
  \<open>Idempotency-Key\<close>, which is what the interceptor reads.
  The interceptor's guard lists \<open>post\<close> and \<open>put\<close> only: the PATCH request of
  \<open>C2_patch_counterexample\<close>, sent without a key of the caller's, goes out with none.  Identifiers returned by \<open>uuidv4\<close> are
  non-empty strings.
\<close>

theorem C2_idempotency_key:
  assumes "toLowerCase (req_method config) \<in> {''post'', ''put''}"
    and "\<forall>n. uuidv4 n \<noteq> []"
  shows "\<exists>cs. sent (snd (client cfg uuidv4 network st config)) = sent st @ cs \<and> cs \<noteq> []
           \<and> list_all (\<lambda>c. idempotency_key c =
                 Some (case idempotency_key config of
                         None \<Rightarrow> uuidv4 (Suc (uuids_drawn st))
                       | Some k \<Rightarrow> if k \<noteq> [] then k else uuidv4 (Suc (uuids_drawn st)))) cs"
proof -
  obtain c1 s1 where hr: "handleRequest uuidv4 st config = (c1, s1)"
    by (cases "handleRequest uuidv4 st config")
  let ?key = "case idempotency_key config of
                None \<Rightarrow> uuidv4 (Suc (uuids_drawn st))
              | Some k \<Rightarrow> if k \<noteq> [] then k else uuidv4 (Suc (uuids_drawn st))"
  have "idempotency_key c1 = Some ?key" by (rule handleRequest_key[OF hr assms(1)])
  moreover have "?key \<noteq> []" using assms(2) by (auto split: option.splits)
  ultimately show ?thesis by (rule client_first_key[OF hr])
qed

theorem C2_idempotency_key_witness:
  "list_all (\<lambda>c. idempotency_key c = Some ''uu'')
     (sent (snd (client bridgeConfig uuid_stream flaky_network fresh_state
                   (request ''put'' ''/customers/cust_1'' Map.empty))))"
  using C2_idempotency_key[of "request ''put'' ''/customers/cust_1'' Map.empty" uuid_stream
          bridgeConfig flaky_network fresh_state]
  by (auto simp: request_def uuid_stream_def fresh_state_def idempotency_key_def
        toLowerCase_def toLowerCase_char_def)

definition ok_network :: "nat \<Rightarrow> outcome" where
  "ok_network n = Fulfilled \<lparr>status = 200, body = ''{}''\<rparr>"

theorem C2_patch_counterexample:
  "map idempotency_key
     (sent (snd (client bridgeConfig uuid_stream ok_network fresh_state
                   (request ''patch'' ''/cards/card_1'' Map.empty)))) = [None]"
  by (simp add: client.simps handleRequest_def handleResponse_def request_def fresh_state_def
        ok_network_def idempotency_key_def toLowerCase_def toLowerCase_char_def Let_def)

section \<open>The persisted mirror (config/supabase.config and the migrations)\<close>

text \<open>
  The store is the set of tables the handlers read and write, each a list of rows
  holding the columns the code uses.  Timestamps are milliseconds since the epoch
  (what \<open>Date\<close> holds).  The constraints of the migrations that an insert or update
  of the code can run into are part of the model, since the code branches on the
  error they return: \<open>UNIQUE\<close> keys, \<open>CHECK\<close> lists, and for the amounts of the
  card tables the column type \<open>DECIMAL(10,2)\<close> with its rounding, its range and
  \<open>NOT NULL\<close>.  Foreign keys are not modelled: the user and card ids the handlers
  write are read from rows of the store.  The module-level \<open>supabase\<close> is null when
  the credentials are missing: \<open>initialized\<close> says that it is not.  A query on a null
  client throws a TypeError.
\<close>

datatype error = TypeError | Error string | DbError string

record user_row =
  user_id :: string
  bridge_customer_id :: "string option"
  kyc_status :: string
  kyc_tier :: nat

record notification_preferences_row =
  pref_user_id :: string
  enable_transaction_notifications :: bool
  enable_card_notifications :: bool
  enable_wallet_notifications :: bool
  enable_kyc_notifications :: bool
  enable_security_notifications :: bool
  enable_system_notifications :: bool
  min_priority_level :: string

record notification_row =
  notif_user_id :: string
  notif_type :: string
  notif_title :: string
  notif_priority :: string
  notif_category :: string

record audit_log_row =
  audit_user_id :: "string option"
  event_type :: string
  bridge_event_id :: "string option"

record transaction_row =
  txn_id :: string
  txn_user_id :: string
  txn_bridge_transfer_id :: "string option"
  txn_status :: string
  txn_bridge_state :: "string option"
  txn_updated_at :: int
  txn_completed_at :: "int option"

record card_row =
  card_id :: string
  card_user_id :: string
  bridge_card_id :: string
  current_daily_spend :: "real option"  \<comment> \<open>\<open>DECIMAL(10,2)\<close>, \<open>None\<close> is \<open>NULL\<close>\<close>
  current_monthly_spend :: "real option"
  last_daily_reset :: int
  last_monthly_reset :: int
  card_updated_at :: int

record card_transaction_row =
  ctx_card_id :: string
  ctx_user_id :: string
  ctx_bridge_transaction_id :: string
  ctx_amount :: real
  ctx_currency :: string
  ctx_type :: string
  ctx_status :: string
  ctx_settled_at :: "int option"

record transfer_row =
  tr_user_id :: string
  tr_bridge_transfer_id :: string
  tr_transfer_type :: string
  tr_amount :: real
  tr_currency :: string
  tr_status :: string
  tr_updated_at :: int
  tr_completed_at :: "int option"
  tr_cancelled_at :: "int option"

record virtual_account_row =
  va_id :: string
  va_user_id :: string
  bridge_account_id :: string

record store =
  initialized :: bool
  users :: "user_row list"
  notification_preferences :: "notification_preferences_row list"
  notifications :: "notification_row list"
  audit_logs :: "audit_log_row list"
  transactions :: "transaction_row list"
  bridge_cards :: "card_row list"
  card_transactions :: "card_transaction_row list"
  bridge_transfers :: "transfer_row list"
  bridge_virtual_accounts :: "virtual_account_row list"

text \<open>\<open>.single()\<close>: the row when the query selects exactly one, otherwise no data.\<close>

fun single :: "'a list \<Rightarrow> 'a option" where
  "single [x] = Some x"
| "single xs = None"

definition createAuditLog :: "store \<Rightarrow> audit_log_row \<Rightarrow> store" where
  "createAuditLog db logData = db\<lparr>audit_logs := audit_logs db @ [logData]\<rparr>"

subsection \<open>Notification fan-out: \<open>createNotification\<close>\<close>

record notification_options =
  opt_priority :: "string option"
  opt_category :: "string option"

definition getCategoryPreference :: "notification_preferences_row \<Rightarrow> string \<Rightarrow> bool" where
  "getCategoryPreference preferences category =
     (case map_of
        [(''transaction'', enable_transaction_notifications preferences),
         (''card'', enable_card_notifications preferences),
         (''wallet'', enable_wallet_notifications preferences),
         (''kyc'', enable_kyc_notifications preferences),
         (''security'', enable_security_notifications preferences),
         (''system'', enable_system_notifications preferences),
         (''general'', True)] category of
        Some enabled \<Rightarrow> enabled
      | None \<Rightarrow> True)"

definition priorityLevels :: "(string \<times> nat) list" where
  "priorityLevels = [(''low'', 0), (''normal'', 1), (''high'', 2), (''urgent'', 3)]"

text \<open>\<open>x || d\<close> on an optional number: undefined and \<open>0\<close> are falsy.\<close>

definition or_default :: "nat option \<Rightarrow> nat \<Rightarrow> nat" where
  "or_default x d = (case x of None \<Rightarrow> d | Some n \<Rightarrow> if n = 0 then d else n)"

definition meetsMinimumPriority :: "string \<Rightarrow> string \<Rightarrow> bool" where
  "meetsMinimumPriority notificationPriority minPriority =
     (let notificationLevel = or_default (map_of priorityLevels notificationPriority) 1;
          minimumLevel = or_default (map_of priorityLevels minPriority) 0
      in notificationLevel \<ge> minimumLevel)"

text \<open>The \<open>CHECK\<close> constraints of \<open>public.notifications\<close> (migrations 003 and 009).\<close>

definition notifications_check :: "notification_row \<Rightarrow> bool" where
  "notifications_check n =
     (notif_type n \<in> set [''success'', ''error'', ''warning'', ''info'', ''kyc'', ''transaction'',
                           ''card'', ''account'']
      \<and> notif_priority n \<in> set [''low'', ''normal'', ''high'', ''urgent'']
      \<and> notif_category n \<in> set [''general'', ''transaction'', ''card'', ''wallet'', ''kyc'',
                                 ''security'', ''system''])"

definition createNotification ::
  "store \<Rightarrow> string \<Rightarrow> string \<Rightarrow> string \<Rightarrow> notification_options
     \<Rightarrow> notification_row option \<times> store" where
  "createNotification db userId type title options =
     (if \<not> initialized db then (None, db)
      else
        let priority = (case opt_priority options of None \<Rightarrow> ''normal'' | Some p \<Rightarrow> p);
            category = (case opt_category options of None \<Rightarrow> ''general'' | Some c \<Rightarrow> c);
            preferences = single (filter (\<lambda>p. pref_user_id p = userId) (notification_preferences db));
            notification = \<lparr>notif_user_id = userId, notif_type = type, notif_title = title,
                            notif_priority = priority, notif_category = category\<rparr>
        in if (case preferences of
                 None \<Rightarrow> False
               | Some p \<Rightarrow> \<not> getCategoryPreference p category
                           \<or> \<not> meetsMinimumPriority priority (min_priority_level p))
           then (None, db)
           else if notifications_check notification
                then (Some notification, db\<lparr>notifications := notifications db @ [notification]\<rparr>)
                else (None, db))"

definition empty_store :: store where
  "empty_store =
     \<lparr>initialized = True, users = [], notification_preferences = [], notifications = [],
      audit_logs = [], transactions = [], bridge_cards = [], card_transactions = [],
      bridge_transfers = [], bridge_virtual_accounts = []\<rparr>"

definition alice :: user_row where
  "alice = \<lparr>user_id = ''user-1'', bridge_customer_id = Some ''cust_1'',
             kyc_status = ''pending'', kyc_tier = 1\<rparr>"




section \<open>Customer status: services/customerService and the \<open>customer.updated\<close> webhook\<close>

record endorsement =
  endorsement_name :: string
  endorsement_status :: string

record kyc_result =
  kycStatus :: string
  kycTier :: nat

text \<open>
  In \<open>mapBridgeStatusToKalypso\<close> the status table is read over the three keys it
  writes down.  For a provider status that names a member of \<open>Object.prototype\<close> the
  JavaScript lookup yields that member and not \<open>pending\<close>; the tier is computed from
  the endorsements alone and does not depend on the table.
\<close>

definition mapBridgeStatusToKalypso :: "string \<Rightarrow> endorsement list \<Rightarrow> kyc_result" where
  "mapBridgeStatusToKalypso bridgeStatus endorsements =
     (let statusMap = [(''active'', ''approved''), (''paused'', ''under_review''),
                       (''offboarded'', ''rejected'')];
          hasRequiredEndorsements =
            list_ex (\<lambda>e. (endorsement_name e = ''ach'' \<or> endorsement_name e = ''base'')
                          \<and> endorsement_status e = ''approved'') endorsements;
          kycTier = (if hasRequiredEndorsements then 2 else 1)
      in \<lparr>kycStatus = (case map_of statusMap bridgeStatus of Some s \<Rightarrow> s | None \<Rightarrow> ''pending''),
          kycTier = kycTier\<rparr>)"

record customer =
  customer_id :: string
  customer_status :: string
  customer_endorsements :: "endorsement list option"  \<comment> \<open>absent in some payloads\<close>

record 'a webhook_event =
  ev_id :: string
  ev_type :: string
  ev_data :: 'a

text \<open>The \<open>CHECK\<close> constraints of \<open>public.users\<close> (migration 001).\<close>

definition users_check :: "user_row \<Rightarrow> bool" where
  "users_check u =
     (kyc_status u \<in> set [''not_started'', ''pending'', ''under_review'', ''approved'', ''rejected'']
      \<and> kyc_tier u \<in> set [1, 2])"

definition getUserByBridgeCustomerId :: "store \<Rightarrow> string \<Rightarrow> user_row option" where
  "getUserByBridgeCustomerId db bridgeCustomerId =
     single (filter (\<lambda>u. bridge_customer_id u = Some bridgeCustomerId) (users db))"

definition getUserById :: "store \<Rightarrow> string \<Rightarrow> error + user_row" where
  "getUserById db userId =
     (case single (filter (\<lambda>u. user_id u = userId) (users db)) of
        None \<Rightarrow> Inl (Error ''Failed to get user'')
      | Some u \<Rightarrow> Inr u)"

text \<open>
  \<open>update({kyc_status, kyc_tier}).eq('id', userId)\<close>: the statement fails as a whole,
  changing nothing, when an updated row violates a \<open>CHECK\<close>.
\<close>

definition update_kyc :: "store \<Rightarrow> string \<Rightarrow> string \<Rightarrow> nat \<Rightarrow> error option \<times> store" where
  "update_kyc db userId newStatus newTier =
     (let upd = (\<lambda>u. u\<lparr>kyc_status := newStatus, kyc_tier := newTier\<rparr>);
          hit = filter (\<lambda>u. user_id u = userId) (users db)
      in if list_all users_check (map upd hit)
         then (None, db\<lparr>users := map (\<lambda>u. if user_id u = userId then upd u else u) (users db)\<rparr>)
         else (Some (DbError ''check constraint''), db))"

definition handleCustomerUpdated :: "store \<Rightarrow> customer webhook_event \<Rightarrow> error option \<times> store" where
  "handleCustomerUpdated db event =
     (let customer = ev_data event;
          bridgeCustomerId = customer_id customer
      in if \<not> initialized db then (Some TypeError, db)
         else case getUserByBridgeCustomerId db bridgeCustomerId of
                None \<Rightarrow> (None, db)
              | Some user \<Rightarrow>
                  let m = mapBridgeStatusToKalypso (customer_status customer)
                            (case customer_endorsements customer of None \<Rightarrow> [] | Some es \<Rightarrow> es);
                      (err, db1) = update_kyc db (user_id user) (kycStatus m) (kycTier m)
                  in case err of
                       Some e \<Rightarrow> (Some e, db1)
                     | None \<Rightarrow>
                         (None, createAuditLog db1
                                  \<lparr>audit_user_id = Some (user_id user),
                                   event_type = ''kyc_status_updated'',
                                   bridge_event_id = Some (ev_id event)\<rparr>))"

text \<open>
  \<open>syncCustomerStatus\<close> fetches the customer from the provider through the client;
  \<open>bridgeCustomer\<close> is what the call returned, or \<open>None\<close> when it threw.  Every error
  inside is rethrown as \<open>Failed to sync customer status\<close>.
\<close>

definition notificationConfig :: "(string \<times> string \<times> string) list" where
  "notificationConfig =
     [(''approved'', ''success'', ''KYC Verification Complete''),
      (''pending'', ''info'', ''KYC Verification Pending''),
      (''under_review'', ''warning'', ''KYC Under Review''),
      (''rejected'', ''error'', ''KYC Verification Failed'')]"

definition syncCustomerStatus ::
  "store \<Rightarrow> customer option \<Rightarrow> string \<Rightarrow> string \<Rightarrow> (error + kyc_result) \<times> store" where
  "syncCustomerStatus db bridgeCustomer userId bridgeCustomerId =
     (if \<not> initialized db then (Inl (Error ''Failed to sync customer status''), db)
      else case getUserById db userId of
             Inl e \<Rightarrow> (Inl (Error ''Failed to sync customer status''), db)
           | Inr currentUser \<Rightarrow>
               let previousStatus = (if kyc_status currentUser = [] then ''not_started''
                                     else kyc_status currentUser);
                   previousTier = kyc_tier currentUser
               in case bridgeCustomer of
                    None \<Rightarrow> (Inl (Error ''Failed to sync customer status''), db)
                  | Some customer \<Rightarrow>
                      let m = mapBridgeStatusToKalypso (customer_status customer)
                                (case customer_endorsements customer of None \<Rightarrow> [] | Some es \<Rightarrow> es);
                          statusChanged = (previousStatus \<noteq> kycStatus m \<or> previousTier \<noteq> kycTier m);
                          (err, db1) = update_kyc db userId (kycStatus m) (kycTier m)
                      in case err of
                           Some e \<Rightarrow> (Inl (Error ''Failed to sync customer status''), db1)
                         | None \<Rightarrow>
                             let db2 = (if statusChanged
                                        then (case map_of notificationConfig (kycStatus m) of
                                                None \<Rightarrow> db1
                                              | Some (type, title) \<Rightarrow>
                                                  snd (createNotification db1 userId type title
                                                         \<lparr>opt_priority = None, opt_category = None\<rparr>))
                                        else db1)
                             in (Inr m, db2))"

definition customer_event :: "string \<Rightarrow> string \<Rightarrow> endorsement list \<Rightarrow> customer webhook_event" where
  "customer_event cid st es =
     \<lparr>ev_id = ''evt_1'', ev_type = ''customer.updated'',
      ev_data = \<lparr>customer_id = cid, customer_status = st, customer_endorsements = Some es\<rparr>\<rparr>"







subsection \<open>The \<open>customer.updated\<close> handler creates no notification\<close>

lemma handleCustomerUpdated_notifications:
  "notifications (snd (handleCustomerUpdated db event)) = notifications db"
  by (simp add: handleCustomerUpdated_def Let_def update_kyc_def createAuditLog_def
        split: option.splits prod.splits)

text \<open>
  Claim C4 at a failing input.  The user's stored status is \<open>pending\<close> and the event
  says \<open>active\<close>, which maps to \<open>approved\<close>: the handler stores the new status and
  writes the audit log, and the \<open>notifications\<close> table stays empty.
\<close>

theorem C4_webhook_creates_no_notification:
  "kyc_status alice = ''pending''
   \<and> handleCustomerUpdated (empty_store\<lparr>users := [alice]\<rparr>) (customer_event ''cust_1'' ''active'' [])
       = (None, empty_store\<lparr>users := [alice\<lparr>kyc_status := ''approved''\<rparr>],
                  audit_logs := [\<lparr>audit_user_id = Some ''user-1'', event_type = ''kyc_status_updated'',
                                  bridge_event_id = Some ''evt_1''\<rparr>],
                  notifications := []\<rparr>)"
  by (simp add: handleCustomerUpdated_def getUserByBridgeCustomerId_def customer_event_def
        mapBridgeStatusToKalypso_def update_kyc_def users_check_def createAuditLog_def
        empty_store_def alice_def Let_def)

text \<open>
  The manual sync, \<open>syncCustomerStatus\<close>, does notify on the same change, and it also
  notifies when only the tier changes.
\<close>

lemma syncCustomerStatus_notifies_on_change:
  "notifications (snd (syncCustomerStatus (empty_store\<lparr>users := [alice]\<rparr>)
       (Some \<lparr>customer_id = ''cust_1'', customer_status = ''active'', customer_endorsements = Some []\<rparr>)
       ''user-1'' ''cust_1''))
   = [\<lparr>notif_user_id = ''user-1'', notif_type = ''success'', notif_title = ''KYC Verification Complete'',
       notif_priority = ''normal'', notif_category = ''general''\<rparr>]"
  by (simp add: syncCustomerStatus_def getUserById_def mapBridgeStatusToKalypso_def update_kyc_def
        users_check_def createNotification_def notificationConfig_def notifications_check_def
        empty_store_def alice_def Let_def)

lemma syncCustomerStatus_notifies_on_tier_change:
  "notifications (snd (syncCustomerStatus
       (empty_store\<lparr>users := [alice\<lparr>kyc_status := ''approved'', kyc_tier := 2\<rparr>]\<rparr>)
       (Some \<lparr>customer_id = ''cust_1'', customer_status = ''active'', customer_endorsements = Some []\<rparr>)
       ''user-1'' ''cust_1''))
   = [\<lparr>notif_user_id = ''user-1'', notif_type = ''success'', notif_title = ''KYC Verification Complete'',
       notif_priority = ''normal'', notif_category = ''general''\<rparr>]"
  by (simp add: syncCustomerStatus_def getUserById_def mapBridgeStatusToKalypso_def update_kyc_def
        users_check_def createNotification_def notificationConfig_def notifications_check_def
        empty_store_def alice_def Let_def)

section \<open>The \<open>transfer.updated\<close> webhook\<close>

record transfer_payload =
  transfer_id :: string
  transfer_state :: string

text \<open>The \<open>CHECK\<close> constraint on \<open>public.transactions.status\<close> (migration 001).\<close>

definition transactions_check :: "transaction_row \<Rightarrow> bool" where
  "transactions_check t =
     (txn_status t \<in> set [''pending'', ''processing'', ''completed'', ''failed'', ''cancelled''])"

text \<open>
  \<open>statusMap\<close> is an object literal, and \<open>statusMap[transfer.state]\<close> an ordinary
  property read: besides the five keys of the literal it finds the members every
  object inherits from \<open>Object.prototype\<close>.  These are functions, but for
  \<open>__proto__\<close>, which reads the prototype object itself; all of them are truthy, so
  \<open>|| 'processing'\<close> does not replace them.
\<close>

definition object_prototype_functions :: "string list" where
  "object_prototype_functions =
     [''constructor'', ''toString'', ''toLocaleString'', ''valueOf'', ''hasOwnProperty'',
      ''isPrototypeOf'', ''propertyIsEnumerable'', ''__defineGetter__'', ''__defineSetter__'',
      ''__lookupGetter__'', ''__lookupSetter__'']"

datatype looked_up = Text string | Function | Prototype

text \<open>The expression \<open>statusMap[transfer.state] || 'processing'\<close> of the handler.\<close>

definition transfer_status :: "string \<Rightarrow> looked_up" where
  "transfer_status state =
     (let statusMap = [(''pending'', ''pending''), (''processing'', ''processing''),
                       (''payment_processed'', ''completed''), (''failed'', ''failed''),
                       (''cancelled'', ''cancelled'')]
      in case map_of statusMap state of
           Some s \<Rightarrow> Text s
         | None \<Rightarrow> if state \<in> set object_prototype_functions then Function
                    else if state = ''__proto__'' then Prototype
                    else Text ''processing'')"

text \<open>
  What the request body gives the \<open>status\<close> column: \<open>JSON.stringify\<close> leaves a
  property whose value is a function out of the body, so that the column is not
  written, and writes the prototype object as \<open>{}\<close>, which the text column receives
  as that text.
\<close>

definition json_column :: "looked_up \<Rightarrow> string option" where
  "json_column v = (case v of Text s \<Rightarrow> Some s | Function \<Rightarrow> None | Prototype \<Rightarrow> Some ''{}'')"

definition handleTransferUpdated ::
  "int \<Rightarrow> store \<Rightarrow> transfer_payload webhook_event \<Rightarrow> error option \<times> store" where
  "handleTransferUpdated now db event =
     (let transfer = ev_data event;
          bridgeTransferId = transfer_id transfer
      in if \<not> initialized db then (Some TypeError, db)
         else case single (filter (\<lambda>t. txn_bridge_transfer_id t = Some bridgeTransferId)
                             (transactions db)) of
                None \<Rightarrow> (None, db)
              | Some transaction \<Rightarrow>
                  let newStatus = transfer_status (transfer_state transfer);
                      updateData = (\<lambda>t. t\<lparr>txn_status :=
                                             (case json_column newStatus of
                                                None \<Rightarrow> txn_status t
                                              | Some s \<Rightarrow> s),
                                           txn_bridge_state := Some (transfer_state transfer),
                                           txn_updated_at := now,
                                           txn_completed_at :=
                                             (if newStatus = Text ''completed'' then Some now
                                              else txn_completed_at t)\<rparr>);
                      hit = filter (\<lambda>t. txn_id t = txn_id transaction) (transactions db)
                  in if list_all transactions_check (map updateData hit)
                     then (None, db\<lparr>transactions :=
                                     map (\<lambda>t. if txn_id t = txn_id transaction then updateData t else t)
                                       (transactions db)\<rparr>)
                     else (Some (DbError ''check constraint''), db))"

lemma filter_map_preserved:
  "(\<And>x. P (g x) = P x) \<Longrightarrow> filter P (map g xs) = map g (filter P xs)"
  by (induction xs) auto

lemma single_Some_iff: "single xs = Some x \<longleftrightarrow> xs = [x]"
  by (cases xs rule: single.cases) auto

lemma transfer_status_table:
  assumes "state \<notin> set object_prototype_functions" and "state \<noteq> ''__proto__''"
  shows "transfer_status state =
     Text (if state = ''pending'' then ''pending''
           else if state = ''processing'' then ''processing''
           else if state = ''payment_processed'' then ''completed''
           else if state = ''failed'' then ''failed''
           else if state = ''cancelled'' then ''cancelled''
           else ''processing'')"
  using assms by (simp add: transfer_status_def)

text \<open>
  For every state that does not name a member of \<open>Object.prototype\<close> the handler
  stores the status of the table, \<open>processing\<close> when the state is none of its keys,
  and stamps \<open>completed_at\<close> exactly when that status is \<open>completed\<close>.
\<close>

lemma handleTransferUpdated_table:
  assumes "initialized db"
    and "single (filter (\<lambda>t. txn_bridge_transfer_id t = Some bridgeTransferId) (transactions db))
           = Some transaction"
    and own: "state \<notin> set object_prototype_functions" "state \<noteq> ''__proto__''"
  shows "\<exists>db'. handleTransferUpdated now db
                 \<lparr>ev_id = eid, ev_type = ''transfer.updated'',
                  ev_data = \<lparr>transfer_id = bridgeTransferId, transfer_state = state\<rparr>\<rparr> = (None, db')
           \<and> single (filter (\<lambda>t. txn_bridge_transfer_id t = Some bridgeTransferId) (transactions db'))
               = Some (transaction
                   \<lparr>txn_status :=
                      (if state = ''pending'' then ''pending''
                       else if state = ''processing'' then ''processing''
                       else if state = ''payment_processed'' then ''completed''
                       else if state = ''failed'' then ''failed''
                       else if state = ''cancelled'' then ''cancelled''
                       else ''processing''),
                    txn_bridge_state := Some state,
                    txn_updated_at := now,
                    txn_completed_at :=
                      (if state = ''payment_processed'' then Some now
                       else txn_completed_at transaction)\<rparr>)"
proof -
  define local where "local =
     (if state = ''pending'' then ''pending''
      else if state = ''processing'' then ''processing''
      else if state = ''payment_processed'' then ''completed''
      else if state = ''failed'' then ''failed''
      else if state = ''cancelled'' then ''cancelled''
      else ''processing'')"
  have ts: "transfer_status state = Text local"
    unfolding local_def by (rule transfer_status_table[OF own])
  have valid: "local \<in> set [''pending'', ''processing'', ''completed'', ''failed'', ''cancelled'']"
    by (simp add: local_def)
  have comp: "(local = ''completed'') = (state = ''payment_processed'')"
    by (simp add: local_def)
  define updateData :: "transaction_row \<Rightarrow> transaction_row"
    where "updateData = (\<lambda>t. t\<lparr>txn_status := local,
       txn_bridge_state := Some state, txn_updated_at := now,
       txn_completed_at := (if local = ''completed'' then Some now else txn_completed_at t)\<rparr>)"
  define g where "g = (\<lambda>t. if txn_id t = txn_id transaction then updateData t else t)"
  have chk: "transactions_check (updateData t)" for t
    using valid by (simp add: updateData_def transactions_check_def)
  have run: "handleTransferUpdated now db
                 \<lparr>ev_id = eid, ev_type = ''transfer.updated'',
                  ev_data = \<lparr>transfer_id = bridgeTransferId, transfer_state = state\<rparr>\<rparr>
             = (None, db\<lparr>transactions := map g (transactions db)\<rparr>)"
    unfolding g_def updateData_def
    using assms(1,2) chk[unfolded updateData_def]
    by (simp add: handleTransferUpdated_def Let_def list_all_iff ts json_column_def)
  have keep: "(txn_bridge_transfer_id (g t) = Some bridgeTransferId)
              = (txn_bridge_transfer_id t = Some bridgeTransferId)" for t
    by (simp add: g_def updateData_def)
  from assms(2) have one: "filter (\<lambda>t. txn_bridge_transfer_id t = Some bridgeTransferId) (transactions db)
                 = [transaction]"
    by (simp add: single_Some_iff)
  have two: "filter (\<lambda>t. txn_bridge_transfer_id t = Some bridgeTransferId) (map g (transactions db))
          = [g transaction]"
    using filter_map_preserved[of "\<lambda>t. txn_bridge_transfer_id t = Some bridgeTransferId" g, OF keep]
    by (simp add: one)
  have three: "g transaction = transaction
                   \<lparr>txn_status := local, txn_bridge_state := Some state,
                    txn_updated_at := now,
                    txn_completed_at := (if state = ''payment_processed'' then Some now
                                         else txn_completed_at transaction)\<rparr>"
    by (simp add: g_def updateData_def comp)
  show ?thesis
    unfolding run local_def[symmetric] by (simp add: two three)
qed

definition wire_out :: transaction_row where
  "wire_out = \<lparr>txn_id = ''txn-1'', txn_user_id = ''user-1'', txn_bridge_transfer_id = Some ''tr_1'',
               txn_status = ''pending'', txn_bridge_state = Some ''pending'',
               txn_updated_at = 1000, txn_completed_at = None\<rparr>"

text \<open>
  Claim C5 at a failing input.  The stored transaction is \<open>pending\<close> and the event
  carries the state \<open>constructor\<close>, which is none of the five keys.  The lookup finds
  the inherited function, the request body has no \<open>status\<close>, and the row keeps the
  status \<open>pending\<close> where the claim says \<open>processing\<close>; the state itself is stored in
  \<open>bridge_state\<close>.
\<close>

theorem C5_inherited_state_keeps_status:
  "handleTransferUpdated 5000 (empty_store\<lparr>transactions := [wire_out]\<rparr>)
     \<lparr>ev_id = ''evt_2'', ev_type = ''transfer.updated'',
      ev_data = \<lparr>transfer_id = ''tr_1'', transfer_state = ''constructor''\<rparr>\<rparr>
   = (None, empty_store\<lparr>transactions :=
        [wire_out\<lparr>txn_status := ''pending'', txn_bridge_state := Some ''constructor'',
                  txn_updated_at := 5000\<rparr>]\<rparr>)"
  by (simp add: handleTransferUpdated_def transfer_status_def object_prototype_functions_def
        json_column_def transactions_check_def empty_store_def wire_out_def Let_def)

section \<open>Card transactions: the \<open>card.transaction.created\<close> webhook\<close>

subsection \<open>Amounts\<close>

text \<open>
  The amount of an event is \<open>parseFloat(cardTransaction.amount)\<close>: a number, or NaN
  when the field is missing or is no number.  Finite numbers are taken as reals.
  \<open>JSON.stringify\<close> writes NaN as \<open>null\<close>.
\<close>

datatype number = Num real | NaN

text \<open>
  A \<open>DECIMAL(10,2)\<close> column rounds what it is given to two decimals, half away from
  zero, and rejects a value whose rounded absolute value is not below \<open>10^8\<close>.
\<close>

definition round_half_away :: "real \<Rightarrow> int" where
  "round_half_away x = (if 0 \<le> x then \<lfloor>x + 1 / 2\<rfloor> else - \<lfloor>- x + 1 / 2\<rfloor>)"

definition decimal_10_2 :: "real \<Rightarrow> real option" where
  "decimal_10_2 x =
     (let r = real_of_int (round_half_away (x * 100)) / 100
      in if \<bar>r\<bar> < 10 ^ 8 then Some r else None)"

text \<open>
  Writing a number to a nullable \<open>DECIMAL(10,2)\<close> column: the outer \<open>None\<close> is the
  error of the store, \<open>Some None\<close> stores \<open>NULL\<close>.  With \<open>NOT NULL\<close>, \<open>null\<close> is an
  error as well.
\<close>

definition decimal_column :: "number \<Rightarrow> real option option" where
  "decimal_column v = (case v of NaN \<Rightarrow> Some None | Num x \<Rightarrow> map_option Some (decimal_10_2 x))"

definition decimal_column_not_null :: "number \<Rightarrow> real option" where
  "decimal_column_not_null v = (case v of NaN \<Rightarrow> None | Num x \<Rightarrow> decimal_10_2 x)"

text \<open>\<open>card.current_daily_spend + amount\<close>: a \<open>null\<close> counter counts as \<open>0\<close>.\<close>

definition plus_number :: "real option \<Rightarrow> number \<Rightarrow> number" where
  "plus_number counter amount =
     (case amount of
        NaN \<Rightarrow> NaN
      | Num a \<Rightarrow> Num ((case counter of None \<Rightarrow> 0 | Some c \<Rightarrow> c) + a))"

subsection \<open>Spend counters: \<open>updateCardSpendingLimits\<close>\<close>

text \<open>
  \<open>cardRow\<close> (the source's \<open>card\<close>) is the row the handler selected before the call;
  the new counters are computed from it and written to the row with its id.  When
  the store rejects the update the function logs the error; it catches every error
  it meets, so it returns the store in all cases.
\<close>

definition spend_updates ::
  "int \<Rightarrow> bool \<Rightarrow> bool \<Rightarrow> real option \<Rightarrow> real option \<Rightarrow> card_row \<Rightarrow> card_row" where
  "spend_updates now shouldResetDaily shouldResetMonthly daily monthly r =
     r\<lparr>current_daily_spend := daily,
       current_monthly_spend := monthly,
       card_updated_at := now,
       last_daily_reset := (if shouldResetDaily then now else last_daily_reset r),
       last_monthly_reset := (if shouldResetMonthly then now else last_monthly_reset r)\<rparr>"

definition updateCardSpendingLimits :: "int \<Rightarrow> store \<Rightarrow> card_row \<Rightarrow> number \<Rightarrow> store" where
  "updateCardSpendingLimits now db cardRow amount =
     (let lastDailyReset = last_daily_reset cardRow;
          lastMonthlyReset = last_monthly_reset cardRow;
          hoursSinceDaily = real_of_int (now - lastDailyReset) / (1000 * 60 * 60);
          shouldResetDaily = (hoursSinceDaily \<ge> 24);
          daysSinceMonthly = real_of_int (now - lastMonthlyReset) / (1000 * 60 * 60 * 24);
          shouldResetMonthly = (daysSinceMonthly \<ge> 30);
          newDaily = (if shouldResetDaily then amount
                      else plus_number (current_daily_spend cardRow) amount);
          newMonthly = (if shouldResetMonthly then amount
                        else plus_number (current_monthly_spend cardRow) amount)
      in if \<not> initialized db then db
         else case decimal_column newDaily of
                None \<Rightarrow> db
              | Some daily \<Rightarrow>
                  (case decimal_column newMonthly of
                     None \<Rightarrow> db
                   | Some monthly \<Rightarrow>
                       db\<lparr>bridge_cards :=
                            map (\<lambda>r. if card_id r = card_id cardRow
                                     then spend_updates now shouldResetDaily shouldResetMonthly
                                            daily monthly r
                                     else r) (bridge_cards db)\<rparr>))"


lemma hours_elapsed: "(real_of_int d / (1000 * 60 * 60) \<ge> 24) = (d \<ge> 24 * 60 * 60 * 1000)"
  by (simp add: field_simps)

lemma days_elapsed: "(real_of_int d / (1000 * 60 * 60 * 24) \<ge> 30) = (d \<ge> 30 * 24 * 60 * 60 * 1000)"
  by (simp add: field_simps)

lemma updateCardSpendingLimits_ms:
  "updateCardSpendingLimits now db cardRow amount =
     (if \<not> initialized db then db
      else case decimal_column
                  (if now - last_daily_reset cardRow \<ge> 24 * 60 * 60 * 1000 then amount
                   else plus_number (current_daily_spend cardRow) amount) of
             None \<Rightarrow> db
           | Some daily \<Rightarrow>
               (case decimal_column
                       (if now - last_monthly_reset cardRow \<ge> 30 * 24 * 60 * 60 * 1000 then amount
                        else plus_number (current_monthly_spend cardRow) amount) of
                  None \<Rightarrow> db
                | Some monthly \<Rightarrow>
                    db\<lparr>bridge_cards :=
                         map (\<lambda>r. if card_id r = card_id cardRow
                                  then spend_updates now
                                         (now - last_daily_reset cardRow \<ge> 24 * 60 * 60 * 1000)
                                         (now - last_monthly_reset cardRow \<ge> 30 * 24 * 60 * 60 * 1000)
                                         daily monthly r
                                  else r) (bridge_cards db)\<rparr>))"
  unfolding updateCardSpendingLimits_def Let_def hours_elapsed days_elapsed by (rule refl)





definition hour :: int where "hour = 60 * 60 * 1000"

definition visa :: card_row where
  "visa = \<lparr>card_id = ''card-1'', card_user_id = ''user-1'', bridge_card_id = ''bc_1'',
           current_daily_spend = Some 40, current_monthly_spend = Some 300,
           last_daily_reset = 0, last_monthly_reset = 0, card_updated_at = 0\<rparr>"


lemma rounding_examples:
  "decimal_10_2 (2001 / 200) = Some (1001 / 100)" "decimal_10_2 (62001 / 200) = Some (31001 / 100)"
  by (simp_all add: decimal_10_2_def round_half_away_def Let_def)



text \<open>A purchase of \<open>10.005\<close> after the window has passed sets the counter to \<open>10.01\<close>.\<close>

lemma spend_counter_is_rounded:
  "map current_daily_spend
     (bridge_cards (updateCardSpendingLimits (25 * hour) (empty_store\<lparr>bridge_cards := [visa]\<rparr>) visa
                      (Num (2001 / 200))))
   = [Some (1001 / 100)]"
  by (simp add: empty_store_def visa_def hour_def updateCardSpendingLimits_ms decimal_column_def
        plus_number_def rounding_examples spend_updates_def)

subsection \<open>The handler \<open>handleCardTransaction\<close>\<close>

record card_transaction_payload =
  ct_id :: string
  ct_card_id :: "string option"
  ct_amount :: number  \<comment> \<open>\<open>parseFloat(cardTransaction.amount)\<close>\<close>
  ct_currency :: "string option"
  ct_type :: "string option"
  ct_status :: "string option"

definition toUpperCase_char :: "char \<Rightarrow> char" where
  "toUpperCase_char c =
     (case map_of (zip ''abcdefghijklmnopqrstuvwxyz'' ''ABCDEFGHIJKLMNOPQRSTUVWXYZ'') c of
        None \<Rightarrow> c
      | Some u \<Rightarrow> u)"

definition toUpperCase :: "string \<Rightarrow> string" where
  "toUpperCase s = map toUpperCase_char s"

text \<open>\<open>x || d\<close> on an optional string.\<close>

definition or_else :: "string option \<Rightarrow> string \<Rightarrow> string" where
  "or_else x d = (case x of None \<Rightarrow> d | Some s \<Rightarrow> if s = [] then d else s)"

text \<open>
  \<open>public.card_transactions\<close> (migration 007): \<open>bridge_transaction_id\<close> is
  \<open>UNIQUE\<close>, \<open>type\<close> and \<open>status\<close> have \<open>CHECK\<close> constraints, \<open>amount\<close> is
  \<open>DECIMAL(10,2) NOT NULL\<close>.  \<open>card_transaction_values\<close> is the object the handler
  passes to \<open>insert\<close>.
\<close>

record card_transaction_values =
  val_card_id :: string
  val_user_id :: string
  val_bridge_transaction_id :: string
  val_amount :: number
  val_currency :: string
  val_type :: string
  val_status :: string
  val_settled_at :: "int option"

definition card_transactions_check :: "card_transaction_row \<Rightarrow> bool" where
  "card_transactions_check r =
     (ctx_type r \<in> set [''purchase'', ''refund'', ''atm_withdrawal'', ''fee'', ''decline'']
      \<and> ctx_status r \<in> set [''pending'', ''approved'', ''declined'', ''settled'', ''reversed''])"

definition insert_card_transaction :: "store \<Rightarrow> card_transaction_values \<Rightarrow> error option \<times> store" where
  "insert_card_transaction db v =
     (case decimal_column_not_null (val_amount v) of
        None \<Rightarrow> (Some (DbError ''amount''), db)
      | Some a \<Rightarrow>
          let r = \<lparr>ctx_card_id = val_card_id v, ctx_user_id = val_user_id v,
                   ctx_bridge_transaction_id = val_bridge_transaction_id v,
                   ctx_amount = a, ctx_currency = val_currency v,
                   ctx_type = val_type v, ctx_status = val_status v,
                   ctx_settled_at = val_settled_at v\<rparr>
          in if ctx_bridge_transaction_id r \<in> set (map ctx_bridge_transaction_id (card_transactions db))
             then (Some (DbError ''duplicate key''), db)
             else if \<not> card_transactions_check r then (Some (DbError ''check constraint''), db)
             else (None, db\<lparr>card_transactions := card_transactions db @ [r]\<rparr>))"

definition handleCardTransaction ::
  "int \<Rightarrow> store \<Rightarrow> card_transaction_payload webhook_event \<Rightarrow> error option \<times> store" where
  "handleCardTransaction now db event =
     (let cardTransaction = ev_data event;
          bridgeCardId = ct_card_id cardTransaction;
          bridgeTransactionId = ct_id cardTransaction;
          amount = ct_amount cardTransaction;
          currency = toUpperCase (or_else (ct_currency cardTransaction) ''usd'')
      in if \<not> truthy bridgeCardId then (None, db)
         else if \<not> initialized db then (Some TypeError, db)
         else case single (filter (\<lambda>c. Some (bridge_card_id c) = bridgeCardId) (bridge_cards db)) of
                None \<Rightarrow> (None, db)
              | Some cardRow \<Rightarrow>
                  let userId = card_user_id cardRow;
                      transactionType = or_else (ct_type cardTransaction) ''purchase'';
                      transactionStatus = or_else (ct_status cardTransaction) ''pending'';
                      isApproved = (transactionStatus = ''approved'' \<or> transactionStatus = ''settled'');
                      isDeclined = (transactionStatus = ''declined'');
                      (insertError, db1) =
                         insert_card_transaction db
                           \<lparr>val_card_id = card_id cardRow, val_user_id = userId,
                            val_bridge_transaction_id = bridgeTransactionId,
                            val_amount = amount, val_currency = toLowerCase currency,
                            val_type = transactionType, val_status = transactionStatus,
                            val_settled_at = (if transactionStatus = ''settled'' then Some now else None)\<rparr>;
                      db2 = (if isApproved \<and> transactionType = ''purchase''
                             then updateCardSpendingLimits now db1 cardRow amount else db1);
                      db3 = createAuditLog db2
                              \<lparr>audit_user_id = Some userId, event_type = ''card_transaction_created'',
                               bridge_event_id = Some (ev_id event)\<rparr>;
                      notificationTitle = (if isDeclined then ''Card Declined''
                                           else if isApproved then ''Card Purchase''
                                           else ''Card Transaction'');
                      notificationType = (if isDeclined then ''warning'' else ''info'');
                      (notification, db4) =
                         createNotification db3 userId notificationType notificationTitle
                           \<lparr>opt_priority = Some (if isDeclined then ''high'' else ''normal''),
                            opt_category = Some ''card''\<rparr>
                  in (None, db4))"


definition card_store :: store where
  "card_store = empty_store\<lparr>users := [alice], bridge_cards := [visa]\<rparr>"



lemma createNotification_frame:
  "initialized (snd (createNotification db u ty ti opts)) = initialized db"
  "notification_preferences (snd (createNotification db u ty ti opts)) = notification_preferences db"
  "card_transactions (snd (createNotification db u ty ti opts)) = card_transactions db"
  "bridge_cards (snd (createNotification db u ty ti opts)) = bridge_cards db"
  "bridge_transfers (snd (createNotification db u ty ti opts)) = bridge_transfers db"
  by (simp_all add: createNotification_def Let_def)


lemma createAuditLog_frame:
  "initialized (createAuditLog db l) = initialized db"
  "notification_preferences (createAuditLog db l) = notification_preferences db"
  "notifications (createAuditLog db l) = notifications db"
  "card_transactions (createAuditLog db l) = card_transactions db"
  "bridge_cards (createAuditLog db l) = bridge_cards db"
  "bridge_transfers (createAuditLog db l) = bridge_transfers db"
  by (simp_all add: createAuditLog_def)

lemma updateCardSpendingLimits_frame:
  "initialized (updateCardSpendingLimits now db c a) = initialized db"
  "notification_preferences (updateCardSpendingLimits now db c a) = notification_preferences db"
  "notifications (updateCardSpendingLimits now db c a) = notifications db"
  "card_transactions (updateCardSpendingLimits now db c a) = card_transactions db"
  by (simp_all add: updateCardSpendingLimits_ms split: option.splits)











text \<open>
  An amount the column does not admit leaves no row at all, on the first delivery
  and on every later one.
\<close>

lemma unstorable_amount_leaves_no_row:
  "card_transactions
     (snd (handleCardTransaction (23 * hour) card_store
        \<lparr>ev_id = ''evt_3'', ev_type = ''card.transaction.created'',
         ev_data = \<lparr>ct_id = ''ctx_1'', ct_card_id = Some ''bc_1'', ct_amount = NaN,
                    ct_currency = Some ''usd'', ct_type = Some ''purchase'',
                    ct_status = Some ''approved''\<rparr>\<rparr>)) = []"
  by (simp add: handleCardTransaction_def card_store_def empty_store_def visa_def or_else_def
        truthy_def Let_def case_prod_beta insert_card_transaction_def decimal_column_not_null_def
        updateCardSpendingLimits_frame createAuditLog_frame createNotification_frame)

section \<open>Transfers: the \<open>bridge_transfers\<close> table\<close>

text \<open>
  \<open>public.bridge_transfers\<close> (migration 008): \<open>bridge_transfer_id\<close> is \<open>UNIQUE\<close>,
  \<open>transfer_type\<close> and \<open>status\<close> have \<open>CHECK\<close> constraints.
\<close>

definition bridge_transfers_check :: "transfer_row \<Rightarrow> bool" where
  "bridge_transfers_check r =
     (tr_transfer_type r \<in> set [''internal'', ''external'', ''ach'']
      \<and> tr_status r \<in> set [''pending'', ''processing'', ''completed'', ''failed'', ''cancelled''])"

definition insert_bridge_transfer :: "store \<Rightarrow> transfer_row \<Rightarrow> error option \<times> store" where
  "insert_bridge_transfer db r =
     (if tr_bridge_transfer_id r \<in> set (map tr_bridge_transfer_id (bridge_transfers db))
      then (Some (DbError ''duplicate key''), db)
      else if \<not> bridge_transfers_check r then (Some (DbError ''check constraint''), db)
      else (None, db\<lparr>bridge_transfers := bridge_transfers db @ [r]\<rparr>))"

subsection \<open>The \<open>virtual_account.deposit.created\<close> webhook\<close>

record deposit_payload =
  dep_id :: string
  dep_external_account_id :: "string option"
  dep_amount :: real  \<comment> \<open>\<open>parseFloat(deposit.amount)\<close>\<close>
  dep_currency :: "string option"
  dep_status :: "string option"
  dep_completed_at :: "int option"

definition handleVirtualAccountDeposit ::
  "int \<Rightarrow> store \<Rightarrow> deposit_payload webhook_event \<Rightarrow> error option \<times> store" where
  "handleVirtualAccountDeposit now db event =
     (let deposit = ev_data event;
          bridgeAccountId = dep_external_account_id deposit;
          bridgeDepositId = dep_id deposit;
          amount = dep_amount deposit;
          currency = toUpperCase (or_else (dep_currency deposit) ''usd'');
          depositStatus = or_else (dep_status deposit) ''pending''
      in if \<not> truthy bridgeAccountId then (None, db)
         else if \<not> initialized db then (Some TypeError, db)
         else case single (filter (\<lambda>a. Some (bridge_account_id a) = bridgeAccountId)
                             (bridge_virtual_accounts db)) of
                None \<Rightarrow> (None, db)
              | Some virtualAccount \<Rightarrow>
                  let userId = va_user_id virtualAccount;
                      depositRecord =
                        \<lparr>tr_user_id = userId, tr_bridge_transfer_id = bridgeDepositId,
                         tr_transfer_type = ''ach'', tr_amount = amount,
                         tr_currency = toLowerCase currency,
                         tr_status = (if depositStatus = ''completed'' then ''completed'' else ''pending''),
                         tr_updated_at = now,
                         tr_completed_at =
                           (if depositStatus = ''completed''
                            then Some (case dep_completed_at deposit of None \<Rightarrow> now | Some t \<Rightarrow> t)
                            else None),
                         tr_cancelled_at = None\<rparr>;
                      (insertError, db1) = insert_bridge_transfer db depositRecord;
                      db2 = createAuditLog db1
                              \<lparr>audit_user_id = Some userId,
                               event_type = ''virtual_account_deposit_created'',
                               bridge_event_id = Some (ev_id event)\<rparr>;
                      notificationTitle =
                        (if depositStatus = ''completed'' then ''Deposit Received''
                         else if depositStatus = ''pending'' then ''Deposit Pending''
                         else if depositStatus = ''failed'' then ''Deposit Failed''
                         else ''Deposit Update'');
                      notificationType =
                        (if depositStatus = ''completed'' then ''success''
                         else if depositStatus = ''pending'' then ''info''
                         else if depositStatus = ''failed'' then ''error''
                         else ''info'');
                      (notification, db3) =
                        createNotification db2 userId notificationType notificationTitle
                          \<lparr>opt_priority =
                             Some (if depositStatus = ''failed'' then ''urgent''
                                   else if depositStatus = ''completed'' \<and> amount \<ge> 10000 then ''high''
                                   else ''normal''),
                           opt_category = Some ''transaction''\<rparr>
                  in (None, db3))"

definition acct :: virtual_account_row where
  "acct = \<lparr>va_id = ''va-1'', va_user_id = ''user-1'', bridge_account_id = ''ea_1''\<rparr>"

definition bounced :: "deposit_payload webhook_event" where
  "bounced = \<lparr>ev_id = ''evt_4'', ev_type = ''virtual_account.deposit.created'',
              ev_data = \<lparr>dep_id = ''dep_1'', dep_external_account_id = Some ''ea_1'',
                         dep_amount = 250, dep_currency = Some ''usd'',
                         dep_status = Some ''failed'', dep_completed_at = None\<rparr>\<rparr>"

text \<open>
  For an event that resolves to a virtual account and whose deposit ID is new, the
  inserted record is \<open>completed\<close> when the deposit says so and \<open>pending\<close> in every other
  case, \<open>failed\<close> included.
\<close>

lemma deposit_record_status:
  assumes "initialized db"
    and "dep_external_account_id d = Some a" and "a \<noteq> []"
    and "single (filter (\<lambda>v. Some (bridge_account_id v) = Some a) (bridge_virtual_accounts db)) = Some va"
    and "dep_id d \<notin> set (map tr_bridge_transfer_id (bridge_transfers db))"
  shows "\<exists>r. bridge_transfers (snd (handleVirtualAccountDeposit now db
                 \<lparr>ev_id = eid, ev_type = ety, ev_data = d\<rparr>)) = bridge_transfers db @ [r]
             \<and> tr_bridge_transfer_id r = dep_id d \<and> tr_transfer_type r = ''ach''
             \<and> tr_status r = (if or_else (dep_status d) ''pending'' = ''completed''
                               then ''completed'' else ''pending'')"
  using assms
  by (simp add: handleVirtualAccountDeposit_def Let_def case_prod_beta truthy_def
        insert_bridge_transfer_def bridge_transfers_check_def createAuditLog_frame
        createNotification_frame createAuditLog_def)

text \<open>
  Claim C8 at a failing input.  The deposit of the event has status \<open>failed\<close>; the
  handler inserts the \<open>ach\<close> record with status \<open>pending\<close>, while the notification it
  creates for the same event is the one for a failed deposit.
\<close>

theorem C8_failed_deposit_recorded_pending:
  "handleVirtualAccountDeposit 7000 (empty_store\<lparr>users := [alice], bridge_virtual_accounts := [acct]\<rparr>)
     bounced
   = (None,
      empty_store
        \<lparr>users := [alice], bridge_virtual_accounts := [acct],
         bridge_transfers :=
           [\<lparr>tr_user_id = ''user-1'', tr_bridge_transfer_id = ''dep_1'', tr_transfer_type = ''ach'',
             tr_amount = 250, tr_currency = ''usd'', tr_status = ''pending'', tr_updated_at = 7000,
             tr_completed_at = None, tr_cancelled_at = None\<rparr>],
         audit_logs :=
           [\<lparr>audit_user_id = Some ''user-1'', event_type = ''virtual_account_deposit_created'',
             bridge_event_id = Some ''evt_4''\<rparr>],
         notifications :=
           [\<lparr>notif_user_id = ''user-1'', notif_type = ''error'', notif_title = ''Deposit Failed'',
             notif_priority = ''urgent'', notif_category = ''transaction''\<rparr>]\<rparr>)"
  by (simp add: handleVirtualAccountDeposit_def bounced_def acct_def empty_store_def
        Let_def case_prod_beta truthy_def or_else_def insert_bridge_transfer_def
        bridge_transfers_check_def createAuditLog_def createNotification_def
        notifications_check_def toUpperCase_def toUpperCase_char_def toLowerCase_def
        toLowerCase_char_def)


subsection \<open>\<open>cancelTransfer\<close> (services/transferService)\<close>

text \<open>
  Every error raised inside is caught and rethrown with the prefix
  \<open>Failed to cancel transfer:\<close>.  The result carries the store, so that an error
  shows what it left behind.
\<close>

definition cancelTransfer :: "int \<Rightarrow> store \<Rightarrow> string \<Rightarrow> string \<Rightarrow> (error + string) \<times> store" where
  "cancelTransfer now db userId transferId =
     (if \<not> initialized db
      then (Inl (Error ''Failed to cancel transfer: Database not initialized''), db)
      else case single (filter (\<lambda>t. tr_bridge_transfer_id t = transferId \<and> tr_user_id t = userId)
                          (bridge_transfers db)) of
             None \<Rightarrow> (Inl (Error ''Failed to cancel transfer: Transfer not found or unauthorized''), db)
           | Some transfer \<Rightarrow>
               if tr_status transfer \<noteq> ''pending''
               then (Inl (Error ''Failed to cancel transfer: Can only cancel pending transfers''), db)
               else
                 let upd = (\<lambda>t. t\<lparr>tr_status := ''cancelled'', tr_cancelled_at := Some now,
                                   tr_updated_at := now\<rparr>);
                     hit = filter (\<lambda>t. tr_bridge_transfer_id t = transferId) (bridge_transfers db)
                 in if \<not> list_all bridge_transfers_check (map upd hit)
                    then (Inl (Error ''Failed to cancel transfer: check constraint''), db)
                    else
                      let db1 = db\<lparr>bridge_transfers :=
                                     map (\<lambda>t. if tr_bridge_transfer_id t = transferId then upd t else t)
                                       (bridge_transfers db)\<rparr>;
                          (notification, db2) =
                            createNotification db1 userId ''info'' ''Transfer Cancelled''
                              \<lparr>opt_priority = Some ''normal'', opt_category = Some ''transaction''\<rparr>
                      in (Inr transferId, db2))"

text \<open>
  Claim C9.  \<open>cancelTransfer\<close> returns normally only if the query for the transfer
  ID and the calling user selects a row whose status is \<open>pending\<close>.  When it does
  (in a table whose rows satisfy the \<open>CHECK\<close> constraints), the call succeeds and
  the row has status \<open>cancelled\<close> with \<open>cancelled_at\<close> set to the current time.  When
  the selected row has any other status, the call raises an error and the store is
  unchanged.
\<close>

theorem C9_cancel_only_pending:
  "(\<forall>x. fst (cancelTransfer now db userId transferId) = Inr x \<longrightarrow>
       (\<exists>t. single (filter (\<lambda>t. tr_bridge_transfer_id t = transferId \<and> tr_user_id t = userId)
                      (bridge_transfers db)) = Some t \<and> tr_status t = ''pending''))
   \<and> (initialized db \<longrightarrow> list_all bridge_transfers_check (bridge_transfers db) \<longrightarrow>
        single (filter (\<lambda>t. tr_bridge_transfer_id t = transferId \<and> tr_user_id t = userId)
                  (bridge_transfers db)) = Some transfer \<longrightarrow>
        tr_status transfer = ''pending'' \<longrightarrow>
          fst (cancelTransfer now db userId transferId) = Inr transferId
          \<and> single (filter (\<lambda>t. tr_bridge_transfer_id t = transferId \<and> tr_user_id t = userId)
                       (bridge_transfers (snd (cancelTransfer now db userId transferId))))
              = Some (transfer\<lparr>tr_status := ''cancelled'', tr_cancelled_at := Some now,
                                tr_updated_at := now\<rparr>))
   \<and> (single (filter (\<lambda>t. tr_bridge_transfer_id t = transferId \<and> tr_user_id t = userId)
                  (bridge_transfers db)) = Some transfer \<longrightarrow>
        tr_status transfer \<noteq> ''pending'' \<longrightarrow>
          (\<exists>e. fst (cancelTransfer now db userId transferId) = Inl e)
          \<and> snd (cancelTransfer now db userId transferId) = db)"
proof (intro conjI allI impI)
  fix x
  assume "fst (cancelTransfer now db userId transferId) = Inr x"
  then show "\<exists>t. single (filter (\<lambda>t. tr_bridge_transfer_id t = transferId \<and> tr_user_id t = userId)
                      (bridge_transfers db)) = Some t \<and> tr_status t = ''pending''"
    by (auto simp: cancelTransfer_def Let_def case_prod_beta split: if_splits option.splits)
next
  assume init: "initialized db"
    and valid: "list_all bridge_transfers_check (bridge_transfers db)"
    and sel: "single (filter (\<lambda>t. tr_bridge_transfer_id t = transferId \<and> tr_user_id t = userId)
                  (bridge_transfers db)) = Some transfer"
    and pend: "tr_status transfer = ''pending''"
  define upd :: "transfer_row \<Rightarrow> transfer_row"
    where "upd = (\<lambda>t. t\<lparr>tr_status := ''cancelled'', tr_cancelled_at := Some now, tr_updated_at := now\<rparr>)"
  define g where "g = (\<lambda>t. if tr_bridge_transfer_id t = transferId then upd t else t)"
  have chk: "list_all bridge_transfers_check
               (map upd (filter (\<lambda>t. tr_bridge_transfer_id t = transferId) (bridge_transfers db)))"
    using valid by (auto simp: list_all_iff bridge_transfers_check_def upd_def)
  have run: "cancelTransfer now db userId transferId
               = (Inr transferId,
                  snd (createNotification (db\<lparr>bridge_transfers := map g (bridge_transfers db)\<rparr>) userId
                         ''info'' ''Transfer Cancelled''
                         \<lparr>opt_priority = Some ''normal'', opt_category = Some ''transaction''\<rparr>))"
    unfolding g_def upd_def
    using init sel pend chk[unfolded upd_def]
    by (simp add: cancelTransfer_def Let_def case_prod_beta)
  show "fst (cancelTransfer now db userId transferId) = Inr transferId"
    by (simp add: run)
  have keep: "(tr_bridge_transfer_id (g t) = transferId \<and> tr_user_id (g t) = userId)
              = (tr_bridge_transfer_id t = transferId \<and> tr_user_id t = userId)" for t
    by (simp add: g_def upd_def)
  from sel have one: "filter (\<lambda>t. tr_bridge_transfer_id t = transferId \<and> tr_user_id t = userId)
                        (bridge_transfers db) = [transfer]"
    by (simp add: single_Some_iff)
  then have "transfer \<in> set (filter (\<lambda>t. tr_bridge_transfer_id t = transferId \<and> tr_user_id t = userId)
                        (bridge_transfers db))" by simp
  then have tid: "tr_bridge_transfer_id transfer = transferId" by simp
  have "filter (\<lambda>t. tr_bridge_transfer_id t = transferId \<and> tr_user_id t = userId)
          (map g (bridge_transfers db)) = [g transfer]"
    using filter_map_preserved[of "\<lambda>t. tr_bridge_transfer_id t = transferId \<and> tr_user_id t = userId" g,
        OF keep]
    by (simp add: one)
  then show "single (filter (\<lambda>t. tr_bridge_transfer_id t = transferId \<and> tr_user_id t = userId)
                       (bridge_transfers (snd (cancelTransfer now db userId transferId))))
              = Some (transfer\<lparr>tr_status := ''cancelled'', tr_cancelled_at := Some now,
                                tr_updated_at := now\<rparr>)"
    by (simp add: run createNotification_frame g_def upd_def tid)
next
  assume sel: "single (filter (\<lambda>t. tr_bridge_transfer_id t = transferId \<and> tr_user_id t = userId)
                  (bridge_transfers db)) = Some transfer"
    and np: "tr_status transfer \<noteq> ''pending''"
  then show "\<exists>e. fst (cancelTransfer now db userId transferId) = Inl e"
    by (simp add: cancelTransfer_def)
  from sel np show "snd (cancelTransfer now db userId transferId) = db"
    by (simp add: cancelTransfer_def)
qed

definition payout :: transfer_row where
  "payout = \<lparr>tr_user_id = ''user-1'', tr_bridge_transfer_id = ''tr_9'', tr_transfer_type = ''external'',
             tr_amount = 75, tr_currency = ''usdc'', tr_status = ''pending'', tr_updated_at = 100,
             tr_completed_at = None, tr_cancelled_at = None\<rparr>"

theorem C9_cancel_only_pending_witness:
  "fst (cancelTransfer 9000 (empty_store\<lparr>bridge_transfers := [payout]\<rparr>) ''user-1'' ''tr_9'') = Inr ''tr_9''
   \<and> single (filter (\<lambda>t. tr_bridge_transfer_id t = ''tr_9'' \<and> tr_user_id t = ''user-1'')
        (bridge_transfers (snd (cancelTransfer 9000 (empty_store\<lparr>bridge_transfers := [payout]\<rparr>)
                                  ''user-1'' ''tr_9''))))
       = Some (payout\<lparr>tr_status := ''cancelled'', tr_cancelled_at := Some 9000, tr_updated_at := 9000\<rparr>)
   \<and> (\<exists>e. fst (cancelTransfer 9000
                   (empty_store\<lparr>bridge_transfers := [payout\<lparr>tr_status := ''processing''\<rparr>]\<rparr>)
                   ''user-1'' ''tr_9'') = Inl e)
   \<and> snd (cancelTransfer 9000 (empty_store\<lparr>bridge_transfers := [payout\<lparr>tr_status := ''processing''\<rparr>]\<rparr>)
            ''user-1'' ''tr_9'')
       = empty_store\<lparr>bridge_transfers := [payout\<lparr>tr_status := ''processing''\<rparr>]\<rparr>"
  using C9_cancel_only_pending[of 9000 "empty_store\<lparr>bridge_transfers := [payout]\<rparr>" "''user-1''"
          "''tr_9''" payout]
    C9_cancel_only_pending[of 9000 "empty_store\<lparr>bridge_transfers := [payout\<lparr>tr_status := ''processing''\<rparr>]\<rparr>"
          "''user-1''" "''tr_9''" "payout\<lparr>tr_status := ''processing''\<rparr>"]
  by (simp add: empty_store_def payout_def bridge_transfers_check_def)

end
